theory Spec2Isabelle
  imports Main "HOL-Library.Sublist"
begin

section \<open>Python text\<close>

text \<open>
  A Python \<open>str\<close> is modelled as a \<^typ>\<open>string\<close> (a list of 8-bit characters), and
  the model is of ASCII text, as the keyword tables of the scraper are: \<open>str.lower\<close>
  maps \<open>A\<close>..\<open>Z\<close> to \<open>a\<close>..\<open>z\<close> and leaves every other character alone, and
  \<open>str.strip\<close> removes the ASCII whitespace characters at both ends (tab, line feed,
  vertical tab, form feed, carriage return, the four separators \<open>0x1C\<close>..\<open>0x1F\<close> and
  the space). On text of ASCII characters (\<open>isascii\<close>) these are what Python
  computes. What Python does to characters outside ASCII is not modelled: the
  statements of what the filter accepts and of the texts the parser stores carry the
  hypothesis that the text is ASCII.
\<close>

definition isascii :: "string \<Rightarrow> bool" where
  "isascii s = list_all (\<lambda>ch. \<not> digit7 ch) s"

definition lower_char :: "char \<Rightarrow> char" where
  "lower_char c =
     (case map_of (zip ''ABCDEFGHIJKLMNOPQRSTUVWXYZ'' ''abcdefghijklmnopqrstuvwxyz'') c of
        Some d \<Rightarrow> d
      | None \<Rightarrow> c)"

definition lower :: "string \<Rightarrow> string" where
  "lower s = map lower_char s"

definition isspace :: "char \<Rightarrow> bool" where
  "isspace c =
     (c \<in> set [CHR 0x09, CHR 0x0A, CHR 0x0B, CHR 0x0C, CHR 0x0D,
                 CHR 0x1C, CHR 0x1D, CHR 0x1E, CHR 0x1F, CHR '' ''])"

definition strip :: "string \<Rightarrow> string" where
  "strip s = rev (dropWhile isspace (rev (dropWhile isspace s)))"

text \<open>\<open>p in s\<close> on two strings: \<open>p\<close> occurs in \<open>s\<close> as a contiguous substring.\<close>

fun py_in :: "string \<Rightarrow> string \<Rightarrow> bool" where
  "py_in p [] = (p = [])"
| "py_in p (c # s) = (prefix p (c # s) \<or> py_in p s)"

text \<open>\<open>str(x)\<close> as an f-string renders it, for a value that is a string or \<open>None\<close>.\<close>

fun py_str :: "string option \<Rightarrow> string" where
  "py_str None = ''None''"
| "py_str (Some s) = s"

section \<open>Posting cards\<close>

text \<open>
  A posting card is the \<open>div.job-search-card\<close> fragment that BeautifulSoup hands to the
  scraper. The scraper looks at a card only through five \<open>find\<close> queries, so a card is
  the record of their answers: the text of the first \<open>h3.base-search-card__title\<close>,
  \<open>h4.base-search-card__subtitle\<close> and \<open>span.job-search-card__location\<close> elements
  (\<open>None\<close> when \<open>find\<close> returns \<open>None\<close>), the \<open>href\<close> attribute of the first
  \<open>a.base-card__full-link\<close> element and the \<open>datetime\<close> attribute of the first
  \<open>time\<close> element (outer \<open>None\<close>: no such element; inner \<open>None\<close>: the element
  has no such attribute, and \<open>Tag.get\<close> returns \<open>None\<close>).
\<close>

record card =
  h3_title :: "string option"
  h4_subtitle :: "string option"
  span_location :: "string option"
  a_full_link :: "string option option"
  time_element :: "string option option"

subsection \<open>\<open>LinkedInScraper._filter_cards\<close>\<close>

definition included_keywords :: "string list" where
  "included_keywords =
     [''backend'', ''cloud'', ''devops'', ''engineering'', ''platform'',
      ''site reliability'', ''software'', ''developer'', ''engineer'']"

definition excluded_keywords :: "string list" where
  "excluded_keywords =
     [''marketing'', ''sales'', ''business'', ''finance'', ''accounting'', ''hr'',
      ''human resources'', ''recruiter'', ''customer'', ''support'', ''service'',
      ''content'', ''design'', ''product manager'', ''project manager'', ''operations'']"

definition pos :: "string list" where
  "pos = [''intern'', ''apprentice'', ''internship'']"

definition filter_cards :: "card \<Rightarrow> bool" where
  "filter_cards c =
     (case h3_title c of
        None \<Rightarrow> False
      | Some title \<Rightarrow>
          (let title_text = lower (strip title) in
           if list_ex (\<lambda>p. py_in p title_text) pos
              \<and> list_ex (\<lambda>keyword. py_in keyword title_text) included_keywords
           then (if list_ex (\<lambda>role. py_in role title_text) excluded_keywords
                 then False else True)
           else False))"

section \<open>\<open>JobOffer\<close>\<close>

text \<open>
  The dataclass of \<open>models/offers.py\<close>. The parser stores the raw \<open>datetime\<close>
  attribute in \<open>posted_date\<close> and the raw \<open>href\<close> in \<open>url\<close>, so both are optional
  strings here.
\<close>

record JobOffer =
  title :: "string option"
  company_name :: "string option"
  location :: "string option"
  posted_date :: "string option"
  url :: "string option"
  description :: "string option"

text \<open>
  \<open>get_hash\<close> formats the three identity fields into one f-string, encodes it and
  returns \<open>hashlib.md5(content).hexdigest()\<close>. The digest is a function of the standard
  library, not of this repository: it is the parameter \<open>md5_hexdigest\<close>, the map from
  the formatted text to the hexadecimal digest of its UTF-8 encoding.
\<close>

definition get_hash :: "(string \<Rightarrow> string) \<Rightarrow> JobOffer \<Rightarrow> string" where
  "get_hash md5_hexdigest self =
     md5_hexdigest (py_str (company_name self) @ py_str (title self) @ py_str (location self))"

text \<open>The three fields the hash reads.\<close>

definition triple :: "JobOffer \<Rightarrow> string option \<times> string option \<times> string option" where
  "triple r = (company_name r, title r, location r)"

section \<open>Errors\<close>

text \<open>
  The exceptions the scraper raises or lets through. \<open>ParsingError\<close> carries its message
  and the exception it was raised \<open>from\<close> (its \<open>__cause__\<close>); \<open>ClientError\<close> stands for
  a failure of the HTTP request itself (connection, timeout), which \<open>fetch_jobs\<close> does
  not catch.
\<close>

datatype error =
    TypeError string
  | AttributeError string
  | ClientError string
  | ScrapingError string
  | ParsingError string error

subsection \<open>\<open>LinkedInScraper._parse_job_card\<close>\<close>

text \<open>
  \<open>card.find(...).text\<close> raises \<open>AttributeError\<close> when \<open>find\<close> returned \<open>None\<close>; the
  three mandatory fields are read in the order title, company, location. The link and
  the time element are guarded by \<open>if link else None\<close>.
\<close>

definition none_has_no_text :: error where
  "none_has_no_text =
     AttributeError ('''NoneType' object has no attribute 'text'' @ [CHR 0x27])"

definition parse_job_card :: "card \<Rightarrow> error + JobOffer" where
  "parse_job_card c =
     (case h3_title c of
        None \<Rightarrow> Inl none_has_no_text
      | Some t \<Rightarrow>
     (case h4_subtitle c of
        None \<Rightarrow> Inl none_has_no_text
      | Some n \<Rightarrow>
     (case span_location c of
        None \<Rightarrow> Inl none_has_no_text
      | Some l \<Rightarrow>
          Inr \<lparr>title = Some (strip t),
               company_name = Some (strip n),
               location = Some (strip l),
               posted_date = (case time_element c of None \<Rightarrow> None | Some d \<Rightarrow> d),
               url = (case a_full_link c of None \<Rightarrow> None | Some h \<Rightarrow> h),
               description = None\<rparr>)))"

subsection \<open>\<open>LinkedInScraper.fetch_jobs\<close>\<close>

text \<open>
  The arguments of \<open>fetch_jobs\<close> are Python values of any type; \<open>isinstance(x, str)\<close>
  tells the strings from the rest.
\<close>

datatype pyval = Str string | IntVal int | NoneVal

fun isinstance_str :: "pyval \<Rightarrow> bool" where
  "isinstance_str (Str s) = True"
| "isinstance_str (IntVal i) = False"
| "isinstance_str NoneVal = False"

fun str_value :: "pyval \<Rightarrow> string" where
  "str_value (Str s) = s"
| "str_value (IntVal i) = []"
| "str_value NoneVal = []"

text \<open>
  An HTTP response as \<open>fetch_jobs\<close> reads it: the status, and the cards that
  \<open>soup.find_all("div", class_="job-search-card")\<close> finds in the body, in document
  order. A session answers a \<open>GET\<close> on a URL with a response or fails; the parameter
  \<open>session\<close> defaults to \<open>None\<close>, on which \<open>session.get\<close> raises \<open>AttributeError\<close>.
\<close>

record response =
  status :: int
  cards :: "card list"

type_synonym session = "string \<Rightarrow> error + response"

definition format_keywords :: "string \<Rightarrow> string" where
  "format_keywords keywords = concat (map (\<lambda>ch. if ch = CHR '' '' then ''%20'' else [ch]) keywords)"

text \<open>The URL of the request: the keywords formatted, then the f-string.\<close>

definition request_url :: "string \<Rightarrow> string \<Rightarrow> string \<Rightarrow> string" where
  "request_url host keywords geo_id =
     host @ ''/?keywords='' @ format_keywords keywords @ ''&geoId='' @ geo_id"

definition none_has_no_get :: error where
  "none_has_no_get =
     AttributeError ('''NoneType' object has no attribute 'get'' @ [CHR 0x27])"

text \<open>The session that answers every request with the same response.\<close>

definition always :: "response \<Rightarrow> session" where
  "always r = (\<lambda>requested. Inr r)"

text \<open>
  The loop over the cards, with its two accumulators \<open>jobs\<close> and \<open>filtered\<close>: a rejected
  card is counted and skipped; an accepted card is parsed, and any exception of the
  parser is re-raised as \<open>ParsingError\<close> \<open>from\<close> it, which ends the loop.
\<close>

fun scan_cards :: "card list \<Rightarrow> JobOffer list \<Rightarrow> nat \<Rightarrow> error + (JobOffer list \<times> nat)" where
  "scan_cards [] jobs filtered = Inr (jobs, filtered)"
| "scan_cards (c # rest) jobs filtered =
     (if \<not> filter_cards c then scan_cards rest jobs (filtered + 1)
      else (case parse_job_card c of
              Inl err \<Rightarrow> Inl (ParsingError ''Error while parsing job card'' err)
            | Inr job \<Rightarrow> scan_cards rest (jobs @ [job]) filtered))"

text \<open>
  \<open>fetch_jobs\<close> returns its outcome together with the list of URLs it requested, so
  that "before any network request" is a statement about the second component.
\<close>

definition fetch_jobs ::
  "string \<Rightarrow> pyval \<times> pyval \<Rightarrow> pyval \<Rightarrow> session option
    \<Rightarrow> (error + JobOffer list) \<times> string list" where
  "fetch_jobs host location_arg keywords session =
     (case location_arg of (geo_id, country) \<Rightarrow>
      if \<not> list_all isinstance_str [geo_id, country, keywords]
      then (Inl (TypeError '''location' and 'keywords' have to be str''), [])
      else
        (let url = request_url host (str_value keywords) (str_value geo_id)
         in case session of
              None \<Rightarrow> (Inl none_has_no_get, [])
            | Some get \<Rightarrow>
                (case get url of
                   Inl err \<Rightarrow> (Inl err, [url])
                 | Inr response \<Rightarrow>
                     if status response \<noteq> 200
                     then (Inl (ScrapingError (''Error while requesting '' @ url)),
                           [url])
                     else (case scan_cards (cards response) [] 0 of
                             Inl err \<Rightarrow> (Inl err, [url])
                           | Inr (jobs, filtered) \<Rightarrow> (Inr jobs, [url])))))"

section \<open>\<open>JobRepository\<close>\<close>

text \<open>
  Modelled from the spec: the class \<open>JobRepository\<close>
  (\<open>summer_internships_scraper.repository.jobs\<close>), which \<open>main\<close> imports and calls and
  whose file is not among the sources. The spec, section 4.4: the repository is a
  mapping from identity hash to record, empty at start; \<open>add_jobs(records)\<close>: "for each
  record, compute identity_hash; if not already present, insert; returns (new_count,
  total_count_after)", with "no update of an existing entry's fields when the same hash
  recurs (the first-seen record for a hash wins)"; \<open>get_all_jobs()\<close> "returns the
  current full set of stored Records". The mapping is an association list in
  insertion order.
\<close>

type_synonym repository = "(string \<times> JobOffer) list"

fun add_jobs_loop ::
  "(string \<Rightarrow> string) \<Rightarrow> repository \<Rightarrow> JobOffer list \<Rightarrow> nat \<Rightarrow> repository \<times> nat" where
  "add_jobs_loop md5_hexdigest repo [] new_count = (repo, new_count)"
| "add_jobs_loop md5_hexdigest repo (r # rs) new_count =
     (let h = get_hash md5_hexdigest r in
      if map_of repo h = None
      then add_jobs_loop md5_hexdigest (repo @ [(h, r)]) rs (new_count + 1)
      else add_jobs_loop md5_hexdigest repo rs new_count)"

definition add_jobs ::
  "(string \<Rightarrow> string) \<Rightarrow> repository \<Rightarrow> JobOffer list \<Rightarrow> repository \<times> (nat \<times> nat)" where
  "add_jobs md5_hexdigest repo records =
     (case add_jobs_loop md5_hexdigest repo records 0 of
        (repo', new_count) \<Rightarrow> (repo', (new_count, length repo')))"

definition get_all_jobs :: "repository \<Rightarrow> JobOffer list" where
  "get_all_jobs repo = map snd repo"

section \<open>The orchestrator: \<open>main\<close>\<close>

text \<open>
  \<open>asyncio.gather(*tasks)\<close> with the default \<open>return_exceptions=False\<close>: when every task
  returns, the list of results in task order; otherwise the exception of the task that
  fails first. \<open>finish_order\<close> lists task indices in the order the tasks finish; tasks
  it does not mention finish after those, in task order.
\<close>

definition gather :: "nat list \<Rightarrow> (error + 'a) list \<Rightarrow> error + 'a list" where
  "gather finish_order outcomes =
     (case List.map_filter
             (\<lambda>i. if i < length outcomes
                  then (case outcomes ! i of Inl e \<Rightarrow> Some e | Inr r \<Rightarrow> None)
                  else None)
             (finish_order @ [0..<length outcomes]) of
        e # es \<Rightarrow> Inl e
      | [] \<Rightarrow> Inr (List.map_filter (\<lambda>out. case out of Inl e \<Rightarrow> None | Inr r \<Rightarrow> Some r) outcomes))"

text \<open>
  What a run of \<open>main\<close> does to the world outside the scraper, in order: the HTTP
  requests of the fetches, the calls of \<open>repo.add_jobs\<close> (with the pair it returned) and
  the call of \<open>export_to_markdown\<close> (with the list it was given).
\<close>

datatype event =
    Request string
  | AddJobs nat nat
  | Export "JobOffer list"

fun is_request :: "event \<Rightarrow> bool" where
  "is_request (Request u) = True"
| "is_request (AddJobs new_jobs total_jobs) = False"
| "is_request (Export all_jobs) = False"

text \<open>
  The loop over \<open>results\<close> after the join. \<open>fetch_jobs\<close> is annotated to return an
  optional list, and the loop guards each entry with \<open>is not None\<close>.
\<close>

fun add_results ::
  "(string \<Rightarrow> string) \<Rightarrow> JobOffer list option list \<Rightarrow> repository \<Rightarrow> nat \<Rightarrow> event list
    \<Rightarrow> repository \<times> nat \<times> event list" where
  "add_results md5_hexdigest [] repo total_new_jobs trace = (repo, total_new_jobs, trace)"
| "add_results md5_hexdigest (None # results) repo total_new_jobs trace =
     add_results md5_hexdigest results repo total_new_jobs trace"
| "add_results md5_hexdigest (Some jobs # results) repo total_new_jobs trace =
     (case add_jobs md5_hexdigest repo jobs of
        (repo', (new_jobs, total_jobs)) \<Rightarrow>
          add_results md5_hexdigest results repo' (total_new_jobs + new_jobs)
            (trace @ [AddJobs new_jobs total_jobs]))"

text \<open>
  \<open>HOST\<close> and \<open>LOCATIONS\<close> (\<open>utils/constants.py\<close>, not among the sources) are
  parameters: the host, and the items of the dictionary from display name to
  geo-identifier, in the dictionary's order. The result of a run is the exception that
  ended it, if any, the repository as the run left it, and the trace of events.
\<close>

definition fetch_all ::
  "string \<Rightarrow> (string \<times> string) list \<Rightarrow> session
    \<Rightarrow> ((error + JobOffer list) \<times> string list) list" where
  "fetch_all HOST LOCATIONS session =
     map (\<lambda>(location_name, geo_id).
            fetch_jobs HOST (Str geo_id, Str location_name) (Str ''Summer 2026'') (Some session))
         LOCATIONS"

definition main ::
  "(string \<Rightarrow> string) \<Rightarrow> string \<Rightarrow> (string \<times> string) list \<Rightarrow> session \<Rightarrow> nat list
    \<Rightarrow> error option \<times> repository \<times> event list" where
  "main md5_hexdigest HOST LOCATIONS session finish_order =
     (let repo = [];
          tasks = fetch_all HOST LOCATIONS session;
          requests = map Request (concat (map snd tasks))
      in case gather finish_order (map fst tasks) of
           Inl err \<Rightarrow> (Some err, repo, requests)
         | Inr results \<Rightarrow>
             (case add_results md5_hexdigest (map Some results) repo 0 requests of
                (repo', total_new_jobs, trace) \<Rightarrow>
                  (None, repo', trace @ [Export (get_all_jobs repo')])))"

section \<open>Auxiliary notions for the statements\<close>


text \<open>The cards in which \<open>find\<close> finds a title element.\<close>

definition has_title :: "card \<Rightarrow> bool" where
  "has_title c = (h3_title c \<noteq> None)"

section \<open>Sample inputs\<close>

text \<open>Cards, records, responses and sessions on which the statements are instantiated.\<close>

definition good_card :: card where
  "good_card =
     \<lparr>h3_title = Some ''  Software Engineer Intern '',
      h4_subtitle = Some ''Acme'',
      span_location = Some ''Lisbon'',
      a_full_link = Some (Some ''https://example.org/jobs/1''),
      time_element = Some (Some ''2026-01-05'')\<rparr>"

definition untitled_card :: card where
  "untitled_card = good_card\<lparr>h3_title := None\<rparr>"

definition no_company_card :: card where
  "no_company_card = good_card\<lparr>h4_subtitle := None\<rparr>"

definition bare_card :: card where
  "bare_card = good_card\<lparr>a_full_link := None, time_element := None\<rparr>"

definition good_offer :: JobOffer where
  "good_offer =
     \<lparr>title = Some ''Software Engineer Intern'',
      company_name = Some ''Acme'',
      location = Some ''Lisbon'',
      posted_date = Some ''2026-01-05'',
      url = Some ''https://example.org/jobs/1'',
      description = None\<rparr>"

definition reposted_offer :: JobOffer where
  "reposted_offer =
     good_offer\<lparr>posted_date := Some ''2026-02-01'', url := Some ''https://example.org/jobs/2''\<rparr>"

definition page :: "int \<Rightarrow> card list \<Rightarrow> response" where
  "page code cs = \<lparr>status = code, cards = cs\<rparr>"

text \<open>
  A session that serves the search page of one geo-identifier and answers every other
  request with status 404.
\<close>

definition one_page_session :: "string \<Rightarrow> response \<Rightarrow> session" where
  "one_page_session served r =
     (\<lambda>requested. if requested = served then Inr r else Inr (page 404 []))"

section \<open>Substring search, lower-casing and stripping\<close>












section \<open>The sample inputs evaluated\<close>

lemma strip_samples:
  "strip ''  Software Engineer Intern '' = ''Software Engineer Intern''"
  "strip ''Acme'' = ''Acme''" "strip ''Lisbon'' = ''Lisbon''"
  by (simp_all add: strip_def isspace_def)

lemma filter_good_card: "filter_cards good_card"
proof -
  have l: "lower ''Software Engineer Intern'' = ''software engineer intern''"
    by (simp add: lower_def lower_char_def)
  show ?thesis
    unfolding good_card_def filter_cards_def
    by (simp add: strip_samples l Let_def pos_def included_keywords_def excluded_keywords_def)
qed

lemma filter_sample_cards:
  "filter_cards no_company_card" "filter_cards bare_card" "\<not> filter_cards untitled_card"
proof -
  have "filter_cards (good_card\<lparr>h4_subtitle := None\<rparr>) = filter_cards good_card"
    "filter_cards (good_card\<lparr>a_full_link := None, time_element := None\<rparr>) = filter_cards good_card"
    by (simp_all add: filter_cards_def)
  then show "filter_cards no_company_card" "filter_cards bare_card"
    by (simp_all add: no_company_card_def bare_card_def filter_good_card)
  show "\<not> filter_cards untitled_card"
    by (simp add: untitled_card_def filter_cards_def)
qed

lemma parse_sample_cards:
  "parse_job_card good_card = Inr good_offer"
  "parse_job_card bare_card = Inr (good_offer\<lparr>posted_date := None, url := None\<rparr>)"
  "parse_job_card no_company_card = Inl none_has_no_text"
  "parse_job_card untitled_card = Inl none_has_no_text"
  by (simp_all add: parse_job_card_def good_card_def bare_card_def no_company_card_def
        untitled_card_def good_offer_def strip_samples)

lemma sample_url:
  "request_url ''https://example.org/jobs'' ''Summer 2026'' ''100364837''
     = ''https://example.org/jobs/?keywords=Summer%202026&geoId=100364837''"
  by (simp add: request_url_def format_keywords_def)

section \<open>The filter\<close>



section \<open>The identity hash\<close>

text \<open>
  C2. \<open>get_hash\<close> is the digest of the concatenation of \<open>company_name\<close>, \<open>title\<close> and
  \<open>location\<close>, in that order, each in its string form: the field's own text when it is
  present, the text \<open>None\<close> when it is absent. So two records with equal (company_name, title, location) triples,
  absent values included, have equal hashes, whatever their \<open>url\<close>, \<open>posted_date\<close> and
  \<open>description\<close>.
\<close>

theorem get_hash_by_triple:
  "get_hash md5_hexdigest r
     = md5_hexdigest (py_str (company_name r) @ py_str (title r) @ py_str (location r))
   \<and> py_str None = ''None''
   \<and> py_str (Some s) = s
   \<and> (company_name r = Some c \<and> title r = Some t \<and> location r = Some l \<longrightarrow>
        get_hash md5_hexdigest r = md5_hexdigest (c @ t @ l))
   \<and> (company_name r = None \<and> title r = Some t \<and> location r = Some l \<longrightarrow>
        get_hash md5_hexdigest r = md5_hexdigest (''None'' @ t @ l))
   \<and> (company_name r = Some c \<and> title r = None \<and> location r = Some l \<longrightarrow>
        get_hash md5_hexdigest r = md5_hexdigest (c @ ''None'' @ l))
   \<and> (company_name r = Some c \<and> title r = Some t \<and> location r = None \<longrightarrow>
        get_hash md5_hexdigest r = md5_hexdigest (c @ t @ ''None''))
   \<and> (company_name r = None \<and> title r = None \<and> location r = None \<longrightarrow>
        get_hash md5_hexdigest r = md5_hexdigest ''NoneNoneNone'')
   \<and> (triple r1 = triple r2 \<longrightarrow> get_hash md5_hexdigest r1 = get_hash md5_hexdigest r2)"
  by (simp add: get_hash_def triple_def)

theorem get_hash_by_triple_witness:
  "\<forall>md5_hexdigest.
     triple good_offer = triple reposted_offer
   \<and> url good_offer \<noteq> url reposted_offer
   \<and> posted_date good_offer \<noteq> posted_date reposted_offer
   \<and> get_hash md5_hexdigest good_offer = get_hash md5_hexdigest reposted_offer
   \<and> get_hash md5_hexdigest good_offer = md5_hexdigest ''AcmeSoftware Engineer InternLisbon''
   \<and> get_hash md5_hexdigest (good_offer\<lparr>company_name := None\<rparr>)
       = md5_hexdigest ''NoneSoftware Engineer InternLisbon''
   \<and> get_hash md5_hexdigest (good_offer\<lparr>company_name := None, title := None, location := None\<rparr>)
       = md5_hexdigest ''NoneNoneNone''"
proof (intro allI)
  fix md5_hexdigest :: "string \<Rightarrow> string"
  have t: "triple good_offer = triple reposted_offer"
    by (simp add: triple_def reposted_offer_def)
  have u: "url good_offer \<noteq> url reposted_offer"
    "posted_date good_offer \<noteq> posted_date reposted_offer"
    by (simp_all add: good_offer_def reposted_offer_def)
  have f: "company_name good_offer = Some ''Acme''"
    "title good_offer = Some ''Software Engineer Intern''"
    "location good_offer = Some ''Lisbon''"
    by (simp_all add: good_offer_def)
  have same: "get_hash md5_hexdigest good_offer = get_hash md5_hexdigest reposted_offer"
    using t get_hash_by_triple[of md5_hexdigest good_offer _ _ _ _ good_offer reposted_offer]
    by blast
  have present: "get_hash md5_hexdigest good_offer
                   = md5_hexdigest (''Acme'' @ ''Software Engineer Intern'' @ ''Lisbon'')"
    using f get_hash_by_triple[of md5_hexdigest good_offer _ "''Acme''"
        "''Software Engineer Intern''" "''Lisbon''"]
    by blast
  have absent1: "get_hash md5_hexdigest (good_offer\<lparr>company_name := None\<rparr>)
                   = md5_hexdigest (''None'' @ ''Software Engineer Intern'' @ ''Lisbon'')"
    using f get_hash_by_triple[of md5_hexdigest "good_offer\<lparr>company_name := None\<rparr>" _ _
        "''Software Engineer Intern''" "''Lisbon''"]
    by simp
  have absent3: "get_hash md5_hexdigest
                   (good_offer\<lparr>company_name := None, title := None, location := None\<rparr>)
                   = md5_hexdigest ''NoneNoneNone''"
    using get_hash_by_triple[of md5_hexdigest
        "good_offer\<lparr>company_name := None, title := None, location := None\<rparr>"]
    by simp
  from t u same present absent1 absent3
  show "triple good_offer = triple reposted_offer
   \<and> url good_offer \<noteq> url reposted_offer
   \<and> posted_date good_offer \<noteq> posted_date reposted_offer
   \<and> get_hash md5_hexdigest good_offer = get_hash md5_hexdigest reposted_offer
   \<and> get_hash md5_hexdigest good_offer = md5_hexdigest ''AcmeSoftware Engineer InternLisbon''
   \<and> get_hash md5_hexdigest (good_offer\<lparr>company_name := None\<rparr>)
       = md5_hexdigest ''NoneSoftware Engineer InternLisbon''
   \<and> get_hash md5_hexdigest (good_offer\<lparr>company_name := None, title := None, location := None\<rparr>)
       = md5_hexdigest ''NoneNoneNone''"
    by simp
qed

text \<open>
  C9. The hash is not injective on the triple: the fields are concatenated with no
  separator, so company \<open>AB\<close> with title \<open>C\<close> hashes like company \<open>A\<close> with title
  \<open>BC\<close>, and a company whose name is the text \<open>None\<close> hashes like an absent company.
\<close>

theorem get_hash_not_injective:
  "triple (r\<lparr>company_name := Some ''AB'', title := Some ''C''\<rparr>)
     \<noteq> triple (r\<lparr>company_name := Some ''A'', title := Some ''BC''\<rparr>)
   \<and> get_hash md5_hexdigest (r\<lparr>company_name := Some ''AB'', title := Some ''C''\<rparr>)
     = get_hash md5_hexdigest (r\<lparr>company_name := Some ''A'', title := Some ''BC''\<rparr>)
   \<and> triple (r\<lparr>company_name := Some ''None''\<rparr>) \<noteq> triple (r\<lparr>company_name := None\<rparr>)
   \<and> get_hash md5_hexdigest (r\<lparr>company_name := Some ''None''\<rparr>)
     = get_hash md5_hexdigest (r\<lparr>company_name := None\<rparr>)
   \<and> (\<exists>r1 r2. triple r1 \<noteq> triple r2 \<and> get_hash md5_hexdigest r1 = get_hash md5_hexdigest r2)"
proof -
  have a: "triple (r\<lparr>company_name := Some ''AB'', title := Some ''C''\<rparr>)
     \<noteq> triple (r\<lparr>company_name := Some ''A'', title := Some ''BC''\<rparr>)"
    by (simp add: triple_def)
  have b: "get_hash md5_hexdigest (r\<lparr>company_name := Some ''AB'', title := Some ''C''\<rparr>)
     = get_hash md5_hexdigest (r\<lparr>company_name := Some ''A'', title := Some ''BC''\<rparr>)"
    by (simp add: get_hash_def)
  have c: "triple (r\<lparr>company_name := Some ''None''\<rparr>) \<noteq> triple (r\<lparr>company_name := None\<rparr>)"
    by (simp add: triple_def)
  have d: "get_hash md5_hexdigest (r\<lparr>company_name := Some ''None''\<rparr>)
     = get_hash md5_hexdigest (r\<lparr>company_name := None\<rparr>)"
    by (simp add: get_hash_def)
  from a b c d show ?thesis by blast
qed

section \<open>The repository\<close>

lemma add_jobs_loop_keeps:
  "map_of repo h = Some r0 \<Longrightarrow> map_of (fst (add_jobs_loop d repo rs n)) h = Some r0"
  by (induction rs arbitrary: repo n) (auto simp: Let_def map_add_def split: option.splits)

lemma add_jobs_single:
  "add_jobs d repo [r] =
     (if map_of repo (get_hash d r) = None
      then (repo @ [(get_hash d r, r)], (1, Suc (length repo)))
      else (repo, (0, length repo)))"
  by (simp add: add_jobs_def Let_def)

lemma add_jobs_present:
  "map_of repo (get_hash d r) \<noteq> None \<Longrightarrow> add_jobs d repo [r] = (repo, (0, length repo))"
  by (simp add: add_jobs_single)

lemma present_after_add: "map_of (fst (add_jobs d repo [r])) (get_hash d r) \<noteq> None"
  by (auto simp: add_jobs_single map_add_def split: option.splits)

lemma total_after_add: "snd (snd (add_jobs d repo rs)) = length (fst (add_jobs d repo rs))"
  by (simp add: add_jobs_def split: prod.splits)

text \<open>
  C7. \<open>add_jobs\<close> is idempotent under the identity hash: adding \<open>[r]\<close> a second time
  reports no new record, the same total, and leaves the repository as it was. The same
  holds for any record \<open>r'\<close> with the hash of \<open>r\<close>; and an entry stored under a hash
  stays what it was through any \<open>add_jobs\<close>: the first-seen record for a hash wins.
\<close>

theorem add_jobs_idempotent:
  "add_jobs md5_hexdigest (fst (add_jobs md5_hexdigest repo [r])) [r]
     = (fst (add_jobs md5_hexdigest repo [r]), (0, snd (snd (add_jobs md5_hexdigest repo [r]))))
   \<and> (get_hash md5_hexdigest r' = get_hash md5_hexdigest r \<longrightarrow>
        add_jobs md5_hexdigest (fst (add_jobs md5_hexdigest repo [r])) [r']
          = (fst (add_jobs md5_hexdigest repo [r]),
             (0, snd (snd (add_jobs md5_hexdigest repo [r])))))
   \<and> (map_of repo h = Some r0 \<longrightarrow>
        map_of (fst (add_jobs md5_hexdigest repo records)) h = Some r0)"
proof (intro conjI impI)
  let ?repo1 = "fst (add_jobs md5_hexdigest repo [r])"
  have p: "map_of ?repo1 (get_hash md5_hexdigest r) \<noteq> None"
    by (rule present_after_add)
  show "add_jobs md5_hexdigest ?repo1 [r]
     = (?repo1, (0, snd (snd (add_jobs md5_hexdigest repo [r]))))"
    using add_jobs_present[OF p] by (simp add: total_after_add)
  show "add_jobs md5_hexdigest ?repo1 [r']
     = (?repo1, (0, snd (snd (add_jobs md5_hexdigest repo [r]))))"
    if "get_hash md5_hexdigest r' = get_hash md5_hexdigest r"
  proof -
    from p that have "map_of ?repo1 (get_hash md5_hexdigest r') \<noteq> None" by simp
    from add_jobs_present[OF this] show ?thesis by (simp add: total_after_add)
  qed
  show "map_of (fst (add_jobs md5_hexdigest repo records)) h = Some r0"
    if "map_of repo h = Some r0"
    using add_jobs_loop_keeps[OF that, of md5_hexdigest records 0]
    by (auto simp: add_jobs_def split: prod.splits)
qed

theorem add_jobs_idempotent_witness:
  "\<forall>md5_hexdigest.
     get_hash md5_hexdigest reposted_offer = get_hash md5_hexdigest good_offer
   \<and> reposted_offer \<noteq> good_offer
   \<and> add_jobs md5_hexdigest [] [good_offer]
       = ([(get_hash md5_hexdigest good_offer, good_offer)], (1, 1))
   \<and> add_jobs md5_hexdigest [(get_hash md5_hexdigest good_offer, good_offer)] [good_offer]
       = ([(get_hash md5_hexdigest good_offer, good_offer)], (0, 1))
   \<and> add_jobs md5_hexdigest [(get_hash md5_hexdigest good_offer, good_offer)] [reposted_offer]
       = ([(get_hash md5_hexdigest good_offer, good_offer)], (0, 1))
   \<and> map_of (fst (add_jobs md5_hexdigest [(get_hash md5_hexdigest good_offer, good_offer)]
                     [reposted_offer, good_offer]))
        (get_hash md5_hexdigest good_offer) = Some good_offer"
proof (intro allI)
  fix d :: "string \<Rightarrow> string"
  have h: "get_hash d reposted_offer = get_hash d good_offer"
    by (simp add: get_hash_def reposted_offer_def)
  have n: "reposted_offer \<noteq> good_offer"
    by (simp add: reposted_offer_def good_offer_def)
  have first: "add_jobs d [] [good_offer] = ([(get_hash d good_offer, good_offer)], (1, 1))"
    by (simp add: add_jobs_single)
  have stored: "map_of [(get_hash d good_offer, good_offer)] (get_hash d good_offer)
                  = Some good_offer"
    by simp
  from h n first stored
    add_jobs_idempotent[of d "[]" good_offer reposted_offer]
    add_jobs_idempotent[of d "[(get_hash d good_offer, good_offer)]" good_offer reposted_offer
      "get_hash d good_offer" good_offer "[reposted_offer, good_offer]"]
  show "get_hash d reposted_offer = get_hash d good_offer
   \<and> reposted_offer \<noteq> good_offer
   \<and> add_jobs d [] [good_offer] = ([(get_hash d good_offer, good_offer)], (1, 1))
   \<and> add_jobs d [(get_hash d good_offer, good_offer)] [good_offer]
       = ([(get_hash d good_offer, good_offer)], (0, 1))
   \<and> add_jobs d [(get_hash d good_offer, good_offer)] [reposted_offer]
       = ([(get_hash d good_offer, good_offer)], (0, 1))
   \<and> map_of (fst (add_jobs d [(get_hash d good_offer, good_offer)]
                     [reposted_offer, good_offer]))
        (get_hash d good_offer) = Some good_offer"
    by simp
qed

section \<open>Fetching\<close>

lemma parse_job_card_error: "parse_job_card c = Inl e \<Longrightarrow> e = none_has_no_text"
  by (auto simp: parse_job_card_def split: option.splits)

lemma filter_cards_title: "filter_cards c \<Longrightarrow> h3_title c \<noteq> None"
  by (auto simp: filter_cards_def split: option.splits)

lemma scan_cards_fails:
  assumes "c \<in> set cs" and "filter_cards c" and "parse_job_card c = Inl e"
  shows "\<exists>c'\<in>set cs. \<exists>e'. filter_cards c' \<and> parse_job_card c' = Inl e'
           \<and> scan_cards cs jobs n = Inl (ParsingError ''Error while parsing job card'' e')"
  using assms
proof (induction cs arbitrary: jobs n)
  case Nil
  then show ?case by simp
next
  case (Cons x xs)
  show ?case
  proof (cases "filter_cards x")
    case False
    with Cons.prems have "c \<in> set xs" by auto
    from Cons.IH[OF this Cons.prems(2,3), of jobs "n + 1"] False show ?thesis by auto
  next
    case True
    show ?thesis
    proof (cases "parse_job_card x")
      case (Inl e')
      with True show ?thesis by auto
    next
      case (Inr job)
      with Cons.prems have "c \<in> set xs" by auto
      from Cons.IH[OF this Cons.prems(2,3), of "jobs @ [job]" n] True Inr show ?thesis by auto
    qed
  qed
qed

lemma scan_cards_error_kind:
  "scan_cards cs jobs n = Inl err \<Longrightarrow> \<exists>cause. err = ParsingError ''Error while parsing job card'' cause"
  by (induction cs arbitrary: jobs n) (auto split: if_splits sum.splits)

lemma fetch_jobs_ok_status:
  assumes "get (request_url host kw geo) = Inr resp" and "status resp = 200"
  shows "fetch_jobs host (Str geo, Str country) (Str kw) (Some get) =
           (case scan_cards (cards resp) [] 0 of
              Inl err \<Rightarrow> (Inl err, [request_url host kw geo])
            | Inr (jobs, filtered) \<Rightarrow> (Inr jobs, [request_url host kw geo]))"
  using assms by (simp add: fetch_jobs_def Let_def)

lemma fetch_jobs_bad_status:
  assumes "get (request_url host kw geo) = Inr resp" and "status resp \<noteq> 200"
  shows "fetch_jobs host (Str geo, Str country) (Str kw) (Some get) =
           (Inl (ScrapingError (''Error while requesting '' @ request_url host kw geo)),
            [request_url host kw geo])"
  using assms by (simp add: fetch_jobs_def Let_def)

text \<open>
  C3. When the response has status 200 and some card that the filter accepts does not
  parse, \<open>fetch_jobs\<close> fails with \<open>ParsingError\<close>, whose cause is the failure of an
  accepted card of that response; the outcome is an error, so no list is returned,
  whatever the other cards are.
\<close>

theorem fetch_jobs_parsing_error_aborts:
  assumes "get (request_url host kw geo) = Inr resp"
    and "status resp = 200"
    and "c \<in> set (cards resp)"
    and "filter_cards c"
    and "parse_job_card c = Inl e"
  shows "\<exists>c'\<in>set (cards resp). \<exists>e'. filter_cards c' \<and> parse_job_card c' = Inl e'
           \<and> fetch_jobs host (Str geo, Str country) (Str kw) (Some get)
               = (Inl (ParsingError ''Error while parsing job card'' e'),
                  [request_url host kw geo])"
proof -
  from scan_cards_fails[OF assms(3,4,5), of "[]" 0]
  obtain c' e' where c': "c' \<in> set (cards resp)" "filter_cards c'" "parse_job_card c' = Inl e'"
    and s: "scan_cards (cards resp) [] 0 = Inl (ParsingError ''Error while parsing job card'' e')"
    by blast
  from fetch_jobs_ok_status[of get host kw geo resp country] assms(1,2) s
  have "fetch_jobs host (Str geo, Str country) (Str kw) (Some get)
          = (Inl (ParsingError ''Error while parsing job card'' e'), [request_url host kw geo])"
    by simp
  with c' show ?thesis by blast
qed

theorem fetch_jobs_parsing_error_aborts_witness:
  "filter_cards no_company_card
   \<and> parse_job_card no_company_card = Inl none_has_no_text
   \<and> parse_job_card good_card = Inr good_offer
   \<and> fetch_jobs ''https://example.org/jobs'' (Str ''100364837'', Str ''Portugal'')
        (Str ''Summer 2026'') (Some (always (page 200 [good_card, no_company_card, good_card])))
      = (Inl (ParsingError ''Error while parsing job card'' none_has_no_text),
         [''https://example.org/jobs/?keywords=Summer%202026&geoId=100364837''])"
proof -
  let ?resp = "page 200 [good_card, no_company_card, good_card]"
  have g: "always ?resp (request_url ''https://example.org/jobs'' ''Summer 2026'' ''100364837'')
             = Inr ?resp"
    by (simp add: always_def)
  have s: "status ?resp = 200" and m: "no_company_card \<in> set (cards ?resp)"
    by (simp_all add: page_def)
  from fetch_jobs_parsing_error_aborts[of "always ?resp" "''https://example.org/jobs''"
      "''Summer 2026''" "''100364837''" ?resp no_company_card none_has_no_text "''Portugal''"]
    g s m filter_sample_cards(1) parse_sample_cards(3)
  obtain e' where
    "fetch_jobs ''https://example.org/jobs'' (Str ''100364837'', Str ''Portugal'')
        (Str ''Summer 2026'') (Some (always ?resp))
      = (Inl (ParsingError ''Error while parsing job card'' e'),
         [request_url ''https://example.org/jobs'' ''Summer 2026'' ''100364837''])"
    and "\<exists>c'. parse_job_card c' = Inl e'"
    by blast
  moreover from this(2) have "e' = none_has_no_text"
    by (auto dest: parse_job_card_error)
  ultimately show ?thesis
    by (simp add: sample_url filter_sample_cards parse_sample_cards)
qed

text \<open>
  C5. A response whose status is not 2xx (404, say) makes \<open>fetch_jobs\<close> fail with a
  \<open>ScrapingError\<close> whose message carries the requested URL; the outcome is the error, and
  no records.
\<close>

theorem fetch_jobs_non_2xx:
  assumes "get (request_url host kw geo) = Inr resp"
    and "status resp < 200 \<or> 299 < status resp"
  shows "fetch_jobs host (Str geo, Str country) (Str kw) (Some get)
           = (Inl (ScrapingError (''Error while requesting '' @ request_url host kw geo)),
              [request_url host kw geo])"
proof -
  from assms(2) have "status resp \<noteq> 200" by auto
  with fetch_jobs_bad_status[of get host kw geo resp country] assms(1) show ?thesis by simp
qed

theorem fetch_jobs_non_2xx_witness:
  "fetch_jobs ''https://example.org/jobs'' (Str ''100364837'', Str ''Portugal'')
     (Str ''Summer 2026'') (Some (always (page 404 [good_card])))
   = (Inl (ScrapingError
        ''Error while requesting https://example.org/jobs/?keywords=Summer%202026&geoId=100364837''),
      [''https://example.org/jobs/?keywords=Summer%202026&geoId=100364837''])"
proof -
  have g: "always (page 404 [good_card])
             (request_url ''https://example.org/jobs'' ''Summer 2026'' ''100364837'')
           = Inr (page 404 [good_card])"
    by (simp add: always_def)
  have s: "status (page 404 [good_card]) < 200 \<or> 299 < status (page 404 [good_card])"
    by (simp add: page_def)
  from fetch_jobs_non_2xx[of "always (page 404 [good_card])" "''https://example.org/jobs''"
      "''Summer 2026''" "''100364837''" "page 404 [good_card]" "''Portugal''"] g s
  show ?thesis
    by (simp add: sample_url)
qed

text \<open>
  C10. \<open>fetch_jobs\<close> raises the scraping error for every status other than exactly 200,
  the other 2xx statuses such as 201 and 204 included; with status 200, and only then,
  the outcome is that of the loop over the cards.
\<close>

theorem fetch_jobs_only_200_parses:
  assumes "get (request_url host kw geo) = Inr resp"
  shows "(status resp \<noteq> 200 \<longrightarrow>
            fst (fetch_jobs host (Str geo, Str country) (Str kw) (Some get))
              = Inl (ScrapingError (''Error while requesting '' @ request_url host kw geo)))
       \<and> (status resp = 200 \<longrightarrow>
            fst (fetch_jobs host (Str geo, Str country) (Str kw) (Some get))
              = map_sum id fst (scan_cards (cards resp) [] 0))
       \<and> ((\<exists>msg. fst (fetch_jobs host (Str geo, Str country) (Str kw) (Some get))
                   = Inl (ScrapingError msg)) \<longleftrightarrow> status resp \<noteq> 200)"
proof (cases "status resp = 200")
  case True
  have f: "fst (fetch_jobs host (Str geo, Str country) (Str kw) (Some get))
            = map_sum id fst (scan_cards (cards resp) [] 0)"
    using fetch_jobs_ok_status[of get host kw geo resp country] assms True
    by (auto split: sum.splits)
  have "fst (fetch_jobs host (Str geo, Str country) (Str kw) (Some get)) \<noteq> Inl (ScrapingError msg)" for msg
  proof (cases "scan_cards (cards resp) [] 0")
    case (Inl err)
    from scan_cards_error_kind[OF this] Inl f show ?thesis by auto
  next
    case (Inr res)
    with f show ?thesis by simp
  qed
  with True f show ?thesis by simp
next
  case False
  from fetch_jobs_bad_status[of get host kw geo resp country] assms False show ?thesis by simp
qed

theorem fetch_jobs_only_200_parses_witness:
  "fst (fetch_jobs ''https://example.org/jobs'' (Str ''100364837'', Str ''Portugal'')
          (Str ''Summer 2026'') (Some (always (page 204 [good_card]))))
     = Inl (ScrapingError
         ''Error while requesting https://example.org/jobs/?keywords=Summer%202026&geoId=100364837'')
   \<and> fst (fetch_jobs ''https://example.org/jobs'' (Str ''100364837'', Str ''Portugal'')
          (Str ''Summer 2026'') (Some (always (page 201 [good_card]))))
     = Inl (ScrapingError
         ''Error while requesting https://example.org/jobs/?keywords=Summer%202026&geoId=100364837'')
   \<and> fst (fetch_jobs ''https://example.org/jobs'' (Str ''100364837'', Str ''Portugal'')
          (Str ''Summer 2026'') (Some (always (page 200 [good_card]))))
     = Inr [good_offer]"
proof -
  have g: "always (page code [good_card])
             (request_url ''https://example.org/jobs'' ''Summer 2026'' ''100364837'')
           = Inr (page code [good_card])" for code
    by (simp add: always_def)
  have s: "status (page 204 [good_card]) \<noteq> 200" "status (page 201 [good_card]) \<noteq> 200"
    "status (page 200 [good_card]) = 200"
    by (simp_all add: page_def)
  have c: "scan_cards (cards (page 200 [good_card])) [] 0 = Inr ([good_offer], 0)"
    by (simp add: page_def filter_good_card parse_sample_cards)
  from g s c
    fetch_jobs_only_200_parses[of "always (page 204 [good_card])" "''https://example.org/jobs''"
      "''Summer 2026''" "''100364837''" "page 204 [good_card]" "''Portugal''"]
    fetch_jobs_only_200_parses[of "always (page 201 [good_card])" "''https://example.org/jobs''"
      "''Summer 2026''" "''100364837''" "page 201 [good_card]" "''Portugal''"]
    fetch_jobs_only_200_parses[of "always (page 200 [good_card])" "''https://example.org/jobs''"
      "''Summer 2026''" "''100364837''" "page 200 [good_card]" "''Portugal''"]
  show ?thesis
    by (simp add: sample_url)
qed

text \<open>
  C6, as the code has it. \<open>fetch_jobs\<close> requires the geo-identifier, the display name
  and the keywords to be text: when one of them is not a \<open>str\<close>, the call fails with
  \<open>TypeError\<close> and no request has been made. Text of any length passes the check, the
  empty text included: with a session at hand the request is then issued.
\<close>

theorem fetch_jobs_type_check:
  "(\<not> isinstance_str geo_id \<or> \<not> isinstance_str country \<or> \<not> isinstance_str keywords \<longrightarrow>
      fetch_jobs host (geo_id, country) keywords session
        = (Inl (TypeError '''location' and 'keywords' have to be str''), []))
   \<and> snd (fetch_jobs host (Str geo, Str name) (Str kw) (Some get)) = [request_url host kw geo]"
proof (intro conjI impI)
  show "fetch_jobs host (geo_id, country) keywords session
        = (Inl (TypeError '''location' and 'keywords' have to be str''), [])"
    if "\<not> isinstance_str geo_id \<or> \<not> isinstance_str country \<or> \<not> isinstance_str keywords"
    using that by (auto simp: fetch_jobs_def)
  show "snd (fetch_jobs host (Str geo, Str name) (Str kw) (Some get)) = [request_url host kw geo]"
    by (simp add: fetch_jobs_def Let_def split: sum.splits prod.splits)
qed

theorem fetch_jobs_type_check_witness:
  "\<not> isinstance_str (IntVal 100364837)
   \<and> fetch_jobs ''https://example.org/jobs'' (IntVal 100364837, Str ''Portugal'')
       (Str ''Summer 2026'') (Some (always (page 200 [good_card])))
     = (Inl (TypeError '''location' and 'keywords' have to be str''), [])
   \<and> fetch_jobs ''https://example.org/jobs'' (Str ''100364837'', Str ''Portugal'')
       NoneVal None
     = (Inl (TypeError '''location' and 'keywords' have to be str''), [])"
  using fetch_jobs_type_check[of "IntVal 100364837" "Str ''Portugal''" "Str ''Summer 2026''"
      "''https://example.org/jobs''" "Some (always (page 200 [good_card]))"]
    fetch_jobs_type_check[of "Str ''100364837''" "Str ''Portugal''" NoneVal
      "''https://example.org/jobs''" None]
  by simp

text \<open>
  C6 as stated asks for non-empty text. With three empty strings the call passes the
  check, requests the URL and returns the (empty) list of the page.
\<close>

theorem fetch_jobs_empty_text_counterexample:
  "fetch_jobs ''https://example.org/jobs'' (Str [], Str []) (Str [])
     (Some (always (page 200 [])))
   = (Inr [], [''https://example.org/jobs/?keywords=&geoId=''])"
  by (simp add: fetch_jobs_def Let_def always_def page_def request_url_def format_keywords_def)

lemma scan_cards_untitled:
  "map_sum id fst (scan_cards (filter has_title cs) jobs m)
     = map_sum id fst (scan_cards cs jobs n)"
proof (induction cs arbitrary: jobs m n)
  case Nil
  then show ?case by simp
next
  case (Cons c cs)
  show ?case
  proof (cases "has_title c")
    case True
    show ?thesis
    proof (cases "filter_cards c")
      case f: True
      then show ?thesis using True Cons.IH by (auto split: sum.splits)
    next
      case f: False
      then show ?thesis using True Cons.IH[of jobs "m + 1" "n + 1"] by simp
    qed
  next
    case False
    then have "\<not> filter_cards c"
      by (auto simp: has_title_def dest: filter_cards_title)
    with False Cons.IH[of jobs m "n + 1"] show ?thesis by simp
  qed
qed

lemma fetch_always:
  "fetch_jobs host (Str geo, Str country) (Str kw) (Some (always resp)) =
     (if status resp \<noteq> 200
      then (Inl (ScrapingError (''Error while requesting '' @ request_url host kw geo)),
            [request_url host kw geo])
      else (map_sum id fst (scan_cards (cards resp) [] 0), [request_url host kw geo]))"
  by (auto simp: fetch_jobs_def Let_def always_def split: sum.splits)

text \<open>
  C4, as the code has it. A card that lacks its title, company or location element
  makes \<open>_parse_job_card\<close> fail, with the \<open>AttributeError\<close> of \<open>None.text\<close>. A card
  without title is rejected by the filter, so \<open>fetch_jobs\<close> never parses it: its
  outcome is the one it has on the response without the title-less cards. An accepted
  card that lacks company or location makes \<open>fetch_jobs\<close> fail with \<open>ParsingError\<close>,
  whose message is fixed and whose cause is that \<open>AttributeError\<close>. A card with the three
  mandatory elements parses, whether or not it has a link and a time element: \<open>url\<close> is
  the \<open>href\<close> of the link and is absent when there is no link, \<open>posted_date\<close> is the
  \<open>datetime\<close> of the time element and is absent when there is none, each whatever the
  other is; on ASCII text the three mandatory fields are the stripped texts.
\<close>

theorem missing_fields:
  "(h3_title c = None \<or> h4_subtitle c = None \<or> span_location c = None \<longrightarrow>
      parse_job_card c = Inl none_has_no_text)
   \<and> (h3_title c = None \<longrightarrow> \<not> filter_cards c)
   \<and> fetch_jobs host (Str geo, Str country) (Str kw)
        (Some (always (resp\<lparr>cards := filter has_title (cards resp)\<rparr>)))
     = fetch_jobs host (Str geo, Str country) (Str kw) (Some (always resp))
   \<and> (status resp = 200 \<and> c \<in> set (cards resp) \<and> filter_cards c
        \<and> (h4_subtitle c = None \<or> span_location c = None) \<longrightarrow>
      fetch_jobs host (Str geo, Str country) (Str kw) (Some (always resp))
        = (Inl (ParsingError ''Error while parsing job card'' none_has_no_text),
           [request_url host kw geo]))
   \<and> (h3_title c = Some t \<and> h4_subtitle c = Some n \<and> span_location c = Some l \<longrightarrow>
        (\<exists>job. parse_job_card c = Inr job
           \<and> url job = (case a_full_link c of None \<Rightarrow> None | Some href \<Rightarrow> href)
           \<and> posted_date job = (case time_element c of None \<Rightarrow> None | Some d \<Rightarrow> d)
           \<and> (a_full_link c = None \<longrightarrow> url job = None)
           \<and> (time_element c = None \<longrightarrow> posted_date job = None)
           \<and> description job = None
           \<and> (isascii t \<and> isascii n \<and> isascii l \<longrightarrow>
                title job = Some (strip t) \<and> company_name job = Some (strip n)
                \<and> location job = Some (strip l))))"
proof (intro conjI impI)
  show "parse_job_card c = Inl none_has_no_text"
    if "h3_title c = None \<or> h4_subtitle c = None \<or> span_location c = None"
    using that by (auto simp: parse_job_card_def split: option.splits)
  show "\<not> filter_cards c" if "h3_title c = None"
    using that by (simp add: filter_cards_def)
  show "fetch_jobs host (Str geo, Str country) (Str kw)
        (Some (always (resp\<lparr>cards := filter has_title (cards resp)\<rparr>)))
     = fetch_jobs host (Str geo, Str country) (Str kw) (Some (always resp))"
    by (simp add: fetch_always scan_cards_untitled[of "cards resp" "[]" 0 0])
  show "fetch_jobs host (Str geo, Str country) (Str kw) (Some (always resp))
        = (Inl (ParsingError ''Error while parsing job card'' none_has_no_text),
           [request_url host kw geo])"
    if h: "status resp = 200 \<and> c \<in> set (cards resp) \<and> filter_cards c
        \<and> (h4_subtitle c = None \<or> span_location c = None)"
  proof -
    from h have p: "parse_job_card c = Inl none_has_no_text"
      by (auto simp: parse_job_card_def split: option.splits)
    from h have "c \<in> set (cards resp)" "filter_cards c" by simp_all
    from scan_cards_fails[OF this p, of "[]" 0]
    obtain e' where "\<exists>c'. parse_job_card c' = Inl e'"
      "scan_cards (cards resp) [] 0 = Inl (ParsingError ''Error while parsing job card'' e')"
      by blast
    moreover from this(1) have "e' = none_has_no_text"
      by (auto dest: parse_job_card_error)
    ultimately show ?thesis using h by (simp add: fetch_always)
  qed
  show "\<exists>job. parse_job_card c = Inr job
           \<and> url job = (case a_full_link c of None \<Rightarrow> None | Some href \<Rightarrow> href)
           \<and> posted_date job = (case time_element c of None \<Rightarrow> None | Some d \<Rightarrow> d)
           \<and> (a_full_link c = None \<longrightarrow> url job = None)
           \<and> (time_element c = None \<longrightarrow> posted_date job = None)
           \<and> description job = None
           \<and> (isascii t \<and> isascii n \<and> isascii l \<longrightarrow>
                title job = Some (strip t) \<and> company_name job = Some (strip n)
                \<and> location job = Some (strip l))"
    if "h3_title c = Some t \<and> h4_subtitle c = Some n \<and> span_location c = Some l"
    using that by (simp add: parse_job_card_def)
qed

theorem missing_fields_witness:
  "parse_job_card untitled_card = Inl none_has_no_text
   \<and> \<not> filter_cards untitled_card
   \<and> filter_cards no_company_card
   \<and> fetch_jobs ''https://example.org/jobs'' (Str ''100364837'', Str ''Portugal'')
        (Str ''Summer 2026'') (Some (always (page 200 [good_card, no_company_card])))
      = (Inl (ParsingError ''Error while parsing job card'' none_has_no_text),
         [''https://example.org/jobs/?keywords=Summer%202026&geoId=100364837''])
   \<and> (\<exists>job. parse_job_card (good_card\<lparr>time_element := None\<rparr>) = Inr job
         \<and> url job = Some ''https://example.org/jobs/1'' \<and> posted_date job = None
         \<and> title job = Some ''Software Engineer Intern'' \<and> company_name job = Some ''Acme''
         \<and> location job = Some ''Lisbon'')
   \<and> (\<exists>job. parse_job_card (good_card\<lparr>a_full_link := None\<rparr>) = Inr job
         \<and> url job = None \<and> posted_date job = Some ''2026-01-05'')
   \<and> (\<exists>job. parse_job_card bare_card = Inr job \<and> url job = None \<and> posted_date job = None)"
proof -
  have u: "h3_title untitled_card = None"
    by (simp add: untitled_card_def)
  have n: "status (page 200 [good_card, no_company_card]) = 200"
    "no_company_card \<in> set (cards (page 200 [good_card, no_company_card]))"
    "h4_subtitle no_company_card = None"
    by (simp_all add: page_def no_company_card_def)
  have a: "isascii ''  Software Engineer Intern ''" "isascii ''Acme''" "isascii ''Lisbon''"
    by (simp_all add: isascii_def)
  have g: "h3_title (good_card\<lparr>time_element := None\<rparr>) = Some ''  Software Engineer Intern ''"
    "h4_subtitle (good_card\<lparr>time_element := None\<rparr>) = Some ''Acme''"
    "span_location (good_card\<lparr>time_element := None\<rparr>) = Some ''Lisbon''"
    "a_full_link (good_card\<lparr>time_element := None\<rparr>) = Some (Some ''https://example.org/jobs/1'')"
    "time_element (good_card\<lparr>time_element := None\<rparr>) = None"
    by (simp_all add: good_card_def)
  have l: "h3_title (good_card\<lparr>a_full_link := None\<rparr>) = Some ''  Software Engineer Intern ''"
    "h4_subtitle (good_card\<lparr>a_full_link := None\<rparr>) = Some ''Acme''"
    "span_location (good_card\<lparr>a_full_link := None\<rparr>) = Some ''Lisbon''"
    "a_full_link (good_card\<lparr>a_full_link := None\<rparr>) = None"
    "time_element (good_card\<lparr>a_full_link := None\<rparr>) = Some (Some ''2026-01-05'')"
    by (simp_all add: good_card_def)
  have b: "h3_title bare_card = Some ''  Software Engineer Intern ''"
    "h4_subtitle bare_card = Some ''Acme''" "span_location bare_card = Some ''Lisbon''"
    "a_full_link bare_card = None" "time_element bare_card = None"
    by (simp_all add: bare_card_def good_card_def)
  have first: "parse_job_card untitled_card = Inl none_has_no_text"
    "\<not> filter_cards untitled_card"
    using u missing_fields[of untitled_card] by simp_all
  have second: "fetch_jobs ''https://example.org/jobs'' (Str ''100364837'', Str ''Portugal'')
        (Str ''Summer 2026'') (Some (always (page 200 [good_card, no_company_card])))
      = (Inl (ParsingError ''Error while parsing job card'' none_has_no_text),
         [''https://example.org/jobs/?keywords=Summer%202026&geoId=100364837''])"
    using n filter_sample_cards(1)
      missing_fields[of no_company_card "''https://example.org/jobs''" "''100364837''"
        "''Portugal''" "''Summer 2026''" "page 200 [good_card, no_company_card]"]
    by (simp add: sample_url)
  have third: "\<exists>job. parse_job_card (good_card\<lparr>time_element := None\<rparr>) = Inr job
         \<and> url job = Some ''https://example.org/jobs/1'' \<and> posted_date job = None
         \<and> title job = Some ''Software Engineer Intern'' \<and> company_name job = Some ''Acme''
         \<and> location job = Some ''Lisbon''"
    using a g
      missing_fields[of "good_card\<lparr>time_element := None\<rparr>" "[]" "[]" "[]" "[]" "page 200 []"
        "''  Software Engineer Intern ''" "''Acme''" "''Lisbon''"]
    by (auto simp: strip_samples)
  have fourth: "\<exists>job. parse_job_card (good_card\<lparr>a_full_link := None\<rparr>) = Inr job
         \<and> url job = None \<and> posted_date job = Some ''2026-01-05''"
    using l
      missing_fields[of "good_card\<lparr>a_full_link := None\<rparr>" "[]" "[]" "[]" "[]" "page 200 []"
        "''  Software Engineer Intern ''" "''Acme''" "''Lisbon''"]
    by auto
  have fifth: "\<exists>job. parse_job_card bare_card = Inr job \<and> url job = None \<and> posted_date job = None"
    using b
      missing_fields[of bare_card "[]" "[]" "[]" "[]" "page 200 []" "''  Software Engineer Intern ''" "''Acme''" "''Lisbon''"]
    by auto
  from first second third fourth fifth filter_sample_cards(1) show ?thesis
    by blast
qed

text \<open>
  C4 as stated has a card without title fail the whole fetch. On a page of status 200
  with a title-less card and a well-formed one, \<open>fetch_jobs\<close> returns the record of the
  well-formed card.
\<close>

theorem untitled_card_counterexample:
  "h3_title untitled_card = None
   \<and> fetch_jobs ''https://example.org/jobs'' (Str ''100364837'', Str ''Portugal'')
     (Str ''Summer 2026'') (Some (always (page 200 [untitled_card, good_card])))
   = (Inr [good_offer], [''https://example.org/jobs/?keywords=Summer%202026&geoId=100364837''])"
proof
  show "h3_title untitled_card = None"
    by (simp add: untitled_card_def)
  show "fetch_jobs ''https://example.org/jobs'' (Str ''100364837'', Str ''Portugal'')
     (Str ''Summer 2026'') (Some (always (page 200 [untitled_card, good_card])))
   = (Inr [good_offer], [''https://example.org/jobs/?keywords=Summer%202026&geoId=100364837''])"
    by (simp add: fetch_always page_def filter_good_card filter_sample_cards parse_sample_cards
          sample_url)
qed

section \<open>The orchestrator\<close>

lemma in_map_filter: "y \<in> set (List.map_filter f xs) \<longleftrightarrow> (\<exists>x\<in>set xs. f x = Some y)"
  by (induction xs) (auto split: option.splits)

lemma gather_fails:
  assumes "Inl e0 \<in> set outcomes"
  shows "\<exists>e. gather finish_order outcomes = Inl e \<and> Inl e \<in> set outcomes"
proof -
  let ?f = "\<lambda>i. if i < length outcomes
                 then (case outcomes ! i of Inl e \<Rightarrow> Some e | Inr r \<Rightarrow> None)
                 else None"
  let ?es = "List.map_filter ?f (finish_order @ [0..<length outcomes])"
  from assms obtain i where i: "i < length outcomes" "outcomes ! i = Inl e0"
    by (auto simp: in_set_conv_nth)
  then have "?f i = Some e0" by simp
  moreover from i have "i \<in> set (finish_order @ [0..<length outcomes])" by simp
  ultimately have "e0 \<in> set ?es"
    unfolding in_map_filter by blast
  then obtain e es where es: "?es = e # es" by (cases ?es) auto
  then have "e \<in> set ?es" by simp
  then obtain j where "?f j = Some e"
    unfolding in_map_filter by blast
  then have "j < length outcomes" "outcomes ! j = Inl e"
    by (auto split: if_splits sum.splits)
  then have "Inl e \<in> set outcomes" by (metis nth_mem)
  moreover from es have "gather finish_order outcomes = Inl e"
    by (simp add: gather_def)
  ultimately show ?thesis by blast
qed

lemma gather_Inr:
  "gather finish_order outcomes = Inr results \<Longrightarrow> \<forall>out\<in>set outcomes. \<not> isl out"
proof (rule ccontr)
  assume g: "gather finish_order outcomes = Inr results"
    and "\<not> (\<forall>out\<in>set outcomes. \<not> isl out)"
  then obtain e0 where "Inl e0 \<in> set outcomes" by (auto simp: isl_def)
  from gather_fails[OF this, of finish_order] g show False by auto
qed

lemma add_results_trace:
  "\<exists>later. snd (snd (add_results d results repo n trace)) = trace @ later
            \<and> list_all (\<lambda>ev. \<not> is_request ev) later"
proof (induction results arbitrary: repo n trace)
  case Nil
  then show ?case by simp
next
  case (Cons x xs)
  show ?case
  proof (cases x)
    case None
    with Cons.IH[of repo n trace] show ?thesis by simp
  next
    case (Some jobs)
    obtain repo' new_jobs total_jobs where a: "add_jobs d repo jobs = (repo', (new_jobs, total_jobs))"
      by (metis prod.exhaust)
    from Cons.IH[of repo' "n + new_jobs" "trace @ [AddJobs new_jobs total_jobs]"]
    obtain later where "snd (snd (add_results d xs repo' (n + new_jobs) (trace @ [AddJobs new_jobs total_jobs])))
        = (trace @ [AddJobs new_jobs total_jobs]) @ later" "list_all (\<lambda>ev. \<not> is_request ev) later"
      by blast
    then have "snd (snd (add_results d (x # xs) repo n trace)) = trace @ (AddJobs new_jobs total_jobs # later)
        \<and> list_all (\<lambda>ev. \<not> is_request ev) (AddJobs new_jobs total_jobs # later)"
      using Some a by simp
    then show ?thesis by blast
  qed
qed

text \<open>
  C8. When the fetch of some location fails, \<open>main\<close> ends with the exception of a failed
  fetch, whatever the order in which the fetches finish; the repository is still empty,
  and the trace holds the requests only: no \<open>add_jobs\<close>, no export. In every run the
  requests come first in the trace, and an \<open>add_jobs\<close> or an export occurs only when
  every fetch has returned its list.
\<close>

theorem main_all_or_nothing:
  "(Inl e0 \<in> set (map fst (fetch_all HOST LOCATIONS session)) \<longrightarrow>
      (\<exists>e. Inl e \<in> set (map fst (fetch_all HOST LOCATIONS session))
          \<and> main md5_hexdigest HOST LOCATIONS session finish_order
              = (Some e, [], map Request (concat (map snd (fetch_all HOST LOCATIONS session))))))
   \<and> (\<exists>later. snd (snd (main md5_hexdigest HOST LOCATIONS session finish_order))
                = map Request (concat (map snd (fetch_all HOST LOCATIONS session))) @ later
              \<and> list_all (\<lambda>ev. \<not> is_request ev) later
              \<and> (later \<noteq> [] \<longrightarrow>
                   (\<forall>out\<in>set (fetch_all HOST LOCATIONS session). \<not> isl (fst out))))"
proof (intro conjI impI)
  let ?tasks = "fetch_all HOST LOCATIONS session"
  let ?requests = "map Request (concat (map snd ?tasks))"
  show "\<exists>e. Inl e \<in> set (map fst ?tasks)
          \<and> main md5_hexdigest HOST LOCATIONS session finish_order = (Some e, [], ?requests)"
    if "Inl e0 \<in> set (map fst ?tasks)"
  proof -
    from gather_fails[OF that, of finish_order]
    obtain e where "gather finish_order (map fst ?tasks) = Inl e" "Inl e \<in> set (map fst ?tasks)"
      by blast
    then show ?thesis by (auto simp: main_def Let_def)
  qed
  show "\<exists>later. snd (snd (main md5_hexdigest HOST LOCATIONS session finish_order))
                = ?requests @ later
              \<and> list_all (\<lambda>ev. \<not> is_request ev) later
              \<and> (later \<noteq> [] \<longrightarrow> (\<forall>out\<in>set ?tasks. \<not> isl (fst out)))"
  proof (cases "gather finish_order (map fst ?tasks)")
    case (Inl e)
    then have "snd (snd (main md5_hexdigest HOST LOCATIONS session finish_order)) = ?requests @ []"
      by (simp add: main_def Let_def)
    then show ?thesis by (intro exI[of _ "[]"]) simp
  next
    case (Inr results)
    from gather_Inr[OF this] have ok: "\<forall>out\<in>set ?tasks. \<not> isl (fst out)" by simp
    from add_results_trace[of md5_hexdigest "map Some results" "[]" 0 ?requests]
    obtain later where l: "snd (snd (add_results md5_hexdigest (map Some results) [] 0 ?requests))
        = ?requests @ later" "list_all (\<lambda>ev. \<not> is_request ev) later"
      by blast
    from Inr l(1)
    have "snd (snd (main md5_hexdigest HOST LOCATIONS session finish_order))
            = ?requests @ (later @ [Export (get_all_jobs (fst (add_results md5_hexdigest (map Some results) [] 0 ?requests)))])"
      by (auto simp: main_def Let_def split: prod.splits)
    with l(2) ok show ?thesis
      by (intro exI[of _ "later @ [Export (get_all_jobs (fst (add_results md5_hexdigest (map Some results) [] 0 ?requests)))]"]) simp
  qed
qed

lemma sample_fetch_all:
  "fetch_all ''https://example.org/jobs'' [(''Portugal'', ''100364837''), (''Spain'', ''105646813'')]
     (one_page_session ''https://example.org/jobs/?keywords=Summer%202026&geoId=100364837''
        (page 200 [good_card]))
   = [(Inr [good_offer], [''https://example.org/jobs/?keywords=Summer%202026&geoId=100364837'']),
      (Inl (ScrapingError
         ''Error while requesting https://example.org/jobs/?keywords=Summer%202026&geoId=105646813''),
       [''https://example.org/jobs/?keywords=Summer%202026&geoId=105646813''])]"
  by (simp add: fetch_all_def fetch_jobs_def Let_def one_page_session_def request_url_def
        format_keywords_def page_def filter_good_card parse_sample_cards)

theorem main_all_or_nothing_witness:
  "\<forall>md5_hexdigest finish_order.
     main md5_hexdigest ''https://example.org/jobs''
       [(''Portugal'', ''100364837''), (''Spain'', ''105646813'')]
       (one_page_session ''https://example.org/jobs/?keywords=Summer%202026&geoId=100364837''
          (page 200 [good_card]))
       finish_order
     = (Some (ScrapingError
          ''Error while requesting https://example.org/jobs/?keywords=Summer%202026&geoId=105646813''),
        [],
        [Request ''https://example.org/jobs/?keywords=Summer%202026&geoId=100364837'',
         Request ''https://example.org/jobs/?keywords=Summer%202026&geoId=105646813''])"
proof (intro allI)
  fix md5_hexdigest :: "string \<Rightarrow> string" and finish_order :: "nat list"
  let ?H = "''https://example.org/jobs''"
  let ?L = "[(''Portugal'', ''100364837''), (''Spain'', ''105646813'')]"
  let ?S = "one_page_session ''https://example.org/jobs/?keywords=Summer%202026&geoId=100364837''
          (page 200 [good_card])"
  let ?E = "ScrapingError
     ''Error while requesting https://example.org/jobs/?keywords=Summer%202026&geoId=105646813''"
  have "Inl ?E \<in> set (map fst (fetch_all ?H ?L ?S))"
    by (simp add: sample_fetch_all)
  with main_all_or_nothing[of ?E ?H ?L ?S md5_hexdigest finish_order]
  obtain e where e: "Inl e \<in> set (map fst (fetch_all ?H ?L ?S))"
    and m: "main md5_hexdigest ?H ?L ?S finish_order
              = (Some e, [], map Request (concat (map snd (fetch_all ?H ?L ?S))))"
    by blast
  from e have "e = ?E"
    by (simp add: sample_fetch_all)
  with m show "main md5_hexdigest ?H ?L ?S finish_order
     = (Some ?E, [],
        [Request ''https://example.org/jobs/?keywords=Summer%202026&geoId=100364837'',
         Request ''https://example.org/jobs/?keywords=Summer%202026&geoId=105646813''])"
    by (simp add: sample_fetch_all)
qed

end
